theory Spec2Isabelle
  imports Main "HOL-Library.Multiset" "HOL-Library.Sublist"
begin

section \<open>The data grid view over in-memory JSON data (packages/datagrid/src/view.ts)\<close>

subsection \<open>Values\<close>

text \<open>
  A cell value has the TypeScript type \<open>any\<close>: it is a JSON value read from a record, or
  \<open>undefined\<close> when the record has no such key. The view never computes with numbers, so
  the representation of a number is left open as the type parameter \<open>'n\<close>.
\<close>

datatype 'n jsvalue =
    JUndefined
  | JNull
  | JBool bool
  | JNumber 'n
  | JString string
  | JArray "'n jsvalue list"
  | JObject "(string \<times> 'n jsvalue) list"

text \<open>
  \<open>ReadonlyJSONObject\<close>: a record of the data source, a mapping from keys to JSON values.
  Only own properties are modelled (a record is plain parsed JSON data).
\<close>

type_synonym 'n JSONObject = "string \<rightharpoonup> 'n jsvalue"

text \<open>What a JavaScript evaluation can throw here: a thrown string, or a \<open>TypeError\<close>
  (reading a property of \<open>undefined\<close>).\<close>

datatype exn = Thrown string | TypeError

subsection \<open>Schema, options, view\<close>

record IField =
  name :: string
  type :: string

text \<open>\<open>primaryKey?: string | string[]\<close>\<close>

datatype PrimaryKey = PKString string | PKArray "string list"

text \<open>The field \<open>fields\<close> of \<open>ISchema\<close> is named \<open>schemaFields\<close> here.\<close>

record ISchema =
  schemaFields :: "IField list"
  missingValues :: "string list option"
  primaryKey :: "PrimaryKey option"

record 'n IOptions =
  opt_schema :: ISchema
  opt_data :: "'n JSONObject list"

record ISplitFieldsResult =
  bodyFields :: "IField list"
  headerFields :: "IField list"

type_synonym MissingValuesMap = "string \<rightharpoonup> bool"

text \<open>The private fields \<open>_data\<close>, \<open>_bodyFields\<close>, \<open>_headerFields\<close>, \<open>_missingValues\<close>
  of the class \<open>View\<close>.\<close>

record 'n View =
  v_data :: "'n JSONObject list"
  v_bodyFields :: "IField list"
  v_headerFields :: "IField list"
  v_missingValues :: "MissingValuesMap option"

subsection \<open>JavaScript primitives used by the view\<close>

text \<open>\<open>Array.prototype.indexOf\<close>: the first index holding the element, or \<open>-1\<close>.\<close>

fun indexOfFrom :: "string list \<Rightarrow> string \<Rightarrow> int \<Rightarrow> int" where
  "indexOfFrom [] x i = - 1"
| "indexOfFrom (y # ys) x i = (if y = x then i else indexOfFrom ys x (i + 1))"

definition indexOf :: "string list \<Rightarrow> string \<Rightarrow> int" where
  "indexOf xs x = indexOfFrom xs x 0"

text \<open>\<open>xs[i]\<close> on an array: \<open>undefined\<close> (here \<open>None\<close>) when the index is out of range.\<close>

definition elemAt :: "'a list \<Rightarrow> int \<Rightarrow> 'a option" where
  "elemAt xs i = (if 0 \<le> i \<and> i < int (length xs) then Some (xs ! nat i) else None)"

subsection \<open>Private.splitFields\<close>

text \<open>The normalized primary keys (the local variable \<open>primaryKeys\<close>).\<close>

definition primaryKeys :: "ISchema \<Rightarrow> string list" where
  "primaryKeys schema =
     (case primaryKey schema of
        None \<Rightarrow> []
      | Some (PKString s) \<Rightarrow> [s]
      | Some (PKArray ks) \<Rightarrow> ks)"

text \<open>The body of the loop over \<open>schema.fields\<close>: push the field on one of the two arrays.\<close>

definition splitStep :: "string list \<Rightarrow> IField \<Rightarrow> ISplitFieldsResult \<Rightarrow> ISplitFieldsResult" where
  "splitStep pks field r =
     (if indexOf pks (name field) = - 1
      then r\<lparr>bodyFields := bodyFields r @ [field]\<rparr>
      else r\<lparr>headerFields := headerFields r @ [field]\<rparr>)"

definition splitFields :: "ISchema \<Rightarrow> ISplitFieldsResult" where
  "splitFields schema =
     fold (splitStep (primaryKeys schema)) (schemaFields schema)
       \<lparr>bodyFields = [], headerFields = []\<rparr>"

subsection \<open>Private.createMissingMap\<close>

definition createMissingMap :: "ISchema \<Rightarrow> MissingValuesMap option" where
  "createMissingMap schema =
     (case missingValues schema of
        None \<Rightarrow> None
      | Some vs \<Rightarrow>
          if length vs = 0 then None
          else Some (fold (\<lambda>value result. result(value \<mapsto> True)) vs Map.empty))"

subsection \<open>The class View\<close>

definition new_View :: "'n IOptions \<Rightarrow> 'n View" where
  "new_View options =
     (let split = splitFields (opt_schema options)
      in \<lparr>v_data = opt_data options,
          v_bodyFields = bodyFields split,
          v_headerFields = headerFields split,
          v_missingValues = createMissingMap (opt_schema options)\<rparr>)"

definition rowCount :: "'n View \<Rightarrow> string \<Rightarrow> nat" where
  "rowCount v region = (if region = ''body'' then length (v_data v) else 1)"

definition columnCount :: "'n View \<Rightarrow> string \<Rightarrow> nat" where
  "columnCount v region =
     (if region = ''body'' then length (v_bodyFields v) else length (v_headerFields v))"

definition metadata :: "'n View \<Rightarrow> string \<Rightarrow> int \<Rightarrow> IField option" where
  "metadata v region column =
     (if region = ''body'' \<or> region = ''column-header''
      then elemAt (v_bodyFields v) column
      else elemAt (v_headerFields v) column)"

text \<open>
  \<open>value = this._data[row][field.name]\<close>: a \<open>TypeError\<close> when \<open>field\<close> or
  \<open>this._data[row]\<close> is \<open>undefined\<close>, \<open>undefined\<close> when the record lacks the key.
\<close>

definition cellValue :: "'n View \<Rightarrow> int \<Rightarrow> IField option \<Rightarrow> exn + (IField \<times> 'n jsvalue)" where
  "cellValue v row field =
     (case field of
        None \<Rightarrow> Inl TypeError
      | Some f \<Rightarrow>
          (case elemAt (v_data v) row of
             None \<Rightarrow> Inl TypeError
           | Some record \<Rightarrow>
               Inr (f, case record (name f) of None \<Rightarrow> JUndefined | Some x \<Rightarrow> x)))"

text \<open>\<open>value = field.name\<close>: a \<open>TypeError\<close> when \<open>field\<close> is \<open>undefined\<close>.\<close>

definition labelValue :: "IField option \<Rightarrow> exn + (IField \<times> 'n jsvalue)" where
  "labelValue field =
     (case field of
        None \<Rightarrow> Inl TypeError
      | Some f \<Rightarrow> Inr (f, JString (name f)))"

text \<open>The \<open>switch (region)\<close> of \<open>data\<close>: the field and the raw value for the region.\<close>

definition lookupRegion ::
  "'n View \<Rightarrow> string \<Rightarrow> int \<Rightarrow> int \<Rightarrow> exn + (IField \<times> 'n jsvalue)" where
  "lookupRegion v region row column =
     (if region = ''body'' then cellValue v row (elemAt (v_bodyFields v) column)
      else if region = ''column-header'' then labelValue (elemAt (v_bodyFields v) column)
      else if region = ''row-header'' then cellValue v row (elemAt (v_headerFields v) column)
      else if region = ''corner-header'' then labelValue (elemAt (v_headerFields v) column)
      else Inl (Thrown ''unreachable''))"

text \<open>The local variable \<open>missing\<close> of \<open>data\<close>.\<close>

definition isMissing :: "MissingValuesMap option \<Rightarrow> 'n jsvalue \<Rightarrow> bool" where
  "isMissing mv val =
     (case mv of
        None \<Rightarrow> False
      | Some m \<Rightarrow> (case val of JString s \<Rightarrow> m s = Some True | _ \<Rightarrow> False))"

definition data :: "'n View \<Rightarrow> string \<Rightarrow> int \<Rightarrow> int \<Rightarrow> exn + 'n jsvalue" where
  "data v region row column =
     (case lookupRegion v region row column of
        Inl e \<Rightarrow> Inl e
      | Inr (field, val) \<Rightarrow>
          Inr (if isMissing (v_missingValues v) val then JNull else val))"

subsection \<open>A concrete schema and data source\<close>

text \<open>
  A two-column table whose \<open>id\<close> column is the primary key and whose missing-value
  marker is \<open>NA\<close>; it is the input at which the conditional theorems below are
  instantiated.
\<close>

definition exampleSchema :: ISchema where
  "exampleSchema =
     \<lparr>schemaFields = [\<lparr>name = ''id'', type = ''integer''\<rparr>, \<lparr>name = ''x'', type = ''string''\<rparr>],
      missingValues = Some [''NA''],
      primaryKey = Some (PKString ''id'')\<rparr>"

definition exampleData :: "int JSONObject list" where
  "exampleData =
     [[''id'' \<mapsto> JNumber 1, ''x'' \<mapsto> JString ''NA''],
      [''id'' \<mapsto> JNumber 2, ''x'' \<mapsto> JString ''hello'']]"

definition exampleView :: "int View" where
  "exampleView = new_View \<lparr>opt_schema = exampleSchema, opt_data = exampleData\<rparr>"

text \<open>
  The view of a one-column table whose only column \<open>id\<close> is the primary key, with the
  single record \<open>{id: 1}\<close> and no missing values.
\<close>

definition scenarioA :: "int View" where
  "scenarioA =
     new_View
       \<lparr>opt_schema =
          \<lparr>schemaFields = [\<lparr>name = ''id'', type = ''integer''\<rparr>],
           missingValues = None,
           primaryKey = Some (PKString ''id'')\<rparr>,
        opt_data = [[''id'' \<mapsto> JNumber 1]]\<rparr>"

text \<open>
  The view of a one-column table with the missing-value marker \<open>NA\<close> whose single
  record holds the JSON value \<open>null\<close> in that column.
\<close>

definition nullCellView :: "int View" where
  "nullCellView =
     new_View
       \<lparr>opt_schema =
          \<lparr>schemaFields = [\<lparr>name = ''x'', type = ''string''\<rparr>],
           missingValues = Some [''NA''],
           primaryKey = None\<rparr>,
        opt_data = [[''x'' \<mapsto> JNull]]\<rparr>"

section \<open>Properties of splitFields\<close>

lemma indexOfFrom_lower: "x \<in> set xs \<Longrightarrow> i \<le> indexOfFrom xs x i"
proof (induction xs arbitrary: i)
  case Nil
  then show ?case by simp
next
  case (Cons y ys)
  show ?case
  proof (cases "y = x")
    case True
    then show ?thesis by simp
  next
    case False
    with Cons.prems have "x \<in> set ys" by simp
    from Cons.IH [OF this, of "i + 1"] False show ?thesis by simp
  qed
qed

lemma indexOfFrom_absent: "x \<notin> set xs \<Longrightarrow> indexOfFrom xs x i = - 1"
  by (induction xs arbitrary: i) auto

lemma indexOf_minus_one: "indexOf xs x = - 1 \<longleftrightarrow> x \<notin> set xs"
proof
  assume neg: "indexOf xs x = - 1"
  show "x \<notin> set xs"
  proof
    assume "x \<in> set xs"
    from indexOfFrom_lower [OF this, of 0] neg show False
      by (simp add: indexOf_def)
  qed
next
  assume "x \<notin> set xs"
  then show "indexOf xs x = - 1"
    by (simp add: indexOf_def indexOfFrom_absent)
qed

lemma fold_splitStep:
  "fold (splitStep pks) fs r =
     \<lparr>bodyFields = bodyFields r @ filter (\<lambda>f. name f \<notin> set pks) fs,
      headerFields = headerFields r @ filter (\<lambda>f. name f \<in> set pks) fs\<rparr>"
proof (induction fs arbitrary: r)
  case Nil
  show ?case by simp
next
  case (Cons f fs)
  have "fold (splitStep pks) (f # fs) r = fold (splitStep pks) fs (splitStep pks f r)"
    by simp
  also have "\<dots> =
     \<lparr>bodyFields = bodyFields (splitStep pks f r) @ filter (\<lambda>f. name f \<notin> set pks) fs,
      headerFields = headerFields (splitStep pks f r) @ filter (\<lambda>f. name f \<in> set pks) fs\<rparr>"
    by (rule Cons.IH)
  also have "\<dots> =
     \<lparr>bodyFields = bodyFields r @ filter (\<lambda>f. name f \<notin> set pks) (f # fs),
      headerFields = headerFields r @ filter (\<lambda>f. name f \<in> set pks) (f # fs)\<rparr>"
    by (cases "name f \<in> set pks") (simp_all add: splitStep_def indexOf_minus_one)
  finally show ?case .
qed

lemma splitFields_filter:
  "splitFields schema =
     \<lparr>bodyFields = filter (\<lambda>f. name f \<notin> set (primaryKeys schema)) (schemaFields schema),
      headerFields = filter (\<lambda>f. name f \<in> set (primaryKeys schema)) (schemaFields schema)\<rparr>"
  by (simp add: splitFields_def fold_splitStep)

lemma splitFields_drop_unmatched:
  assumes "k \<notin> name ` set (schemaFields schema)"
  shows "splitFields (schema\<lparr>primaryKey := Some (PKArray (ks1 @ k # ks2))\<rparr>)
       = splitFields (schema\<lparr>primaryKey := Some (PKArray (ks1 @ ks2))\<rparr>)"
proof -
  have "\<And>f. f \<in> set (schemaFields schema) \<Longrightarrow> name f \<noteq> k"
    using assms by auto
  then have "filter (\<lambda>f. name f \<in> set (ks1 @ k # ks2)) (schemaFields schema)
           = filter (\<lambda>f. name f \<in> set (ks1 @ ks2)) (schemaFields schema)"
    and "filter (\<lambda>f. name f \<notin> set (ks1 @ k # ks2)) (schemaFields schema)
           = filter (\<lambda>f. name f \<notin> set (ks1 @ ks2)) (schemaFields schema)"
    by (auto intro: filter_cong)
  then show ?thesis
    by (simp add: splitFields_filter primaryKeys_def)
qed

lemma splitFields_single_unmatched:
  assumes "k \<notin> name ` set (schemaFields schema)"
  shows "splitFields (schema\<lparr>primaryKey := Some (PKString k)\<rparr>)
       = splitFields (schema\<lparr>primaryKey := None\<rparr>)"
proof -
  have "\<And>f. f \<in> set (schemaFields schema) \<Longrightarrow> name f \<noteq> k"
    using assms by auto
  then have "filter (\<lambda>f. name f = k) (schemaFields schema) = []"
    and "filter (\<lambda>f. name f \<noteq> k) (schemaFields schema) = schemaFields schema"
    by (auto simp: filter_empty_conv filter_id_conv)
  then show ?thesis
    by (simp add: splitFields_filter primaryKeys_def)
qed

lemma exampleView_fields:
  "v_bodyFields exampleView = [\<lparr>name = ''x'', type = ''string''\<rparr>]"
  "v_headerFields exampleView = [\<lparr>name = ''id'', type = ''integer''\<rparr>]"
  "v_data exampleView = exampleData"
  "v_missingValues exampleView = Some [''NA'' \<mapsto> True]"
  by (simp_all add: exampleView_def new_View_def splitFields_def splitStep_def primaryKeys_def
      indexOf_def exampleSchema_def createMissingMap_def)

text \<open>
  Claim C1. For every schema, \<open>splitFields\<close> partitions the schema's field list: as
  multisets the body fields and the header fields together are the field list, no field
  is in both, the two lengths sum to the number of fields, and each of the two sequences
  is a subsequence of the field list (the relative order of the schema is kept).
\<close>

theorem splitFields_partition:
  "mset (bodyFields (splitFields schema)) + mset (headerFields (splitFields schema))
     = mset (schemaFields schema)
   \<and> set (bodyFields (splitFields schema)) \<inter> set (headerFields (splitFields schema)) = {}
   \<and> length (bodyFields (splitFields schema)) + length (headerFields (splitFields schema))
     = length (schemaFields schema)
   \<and> subseq (bodyFields (splitFields schema)) (schemaFields schema)
   \<and> subseq (headerFields (splitFields schema)) (schemaFields schema)"
proof -
  let ?pks = "set (primaryKeys schema)"
  let ?fs = "schemaFields schema"
  have b: "bodyFields (splitFields schema) = filter (\<lambda>f. name f \<notin> ?pks) ?fs"
    and h: "headerFields (splitFields schema) = filter (\<lambda>f. name f \<in> ?pks) ?fs"
    by (simp_all add: splitFields_filter)
  have m: "mset (filter (\<lambda>f. name f \<notin> ?pks) ?fs) + mset (filter (\<lambda>f. name f \<in> ?pks) ?fs)
      = mset ?fs"
    by (induction ?fs) simp_all
  have d: "set (filter (\<lambda>f. name f \<notin> ?pks) ?fs) \<inter> set (filter (\<lambda>f. name f \<in> ?pks) ?fs) = {}"
    by auto
  have l: "length (filter (\<lambda>f. name f \<notin> ?pks) ?fs) + length (filter (\<lambda>f. name f \<in> ?pks) ?fs)
      = length ?fs"
    using sum_length_filter_compl [of "\<lambda>f. name f \<in> ?pks" ?fs] by simp
  show ?thesis
    unfolding b h using m d l by simp
qed

text \<open>
  Claim C3. The primary keys are normalized to the empty list when \<open>primaryKey\<close> is
  absent, to a one-element list for a single string, and to the given list (duplicates and
  all) for an array. A field goes to \<open>headerFields\<close> exactly when its name is a member
  of that list and to \<open>bodyFields\<close> otherwise. A primary-key name that is the name of
  no field changes nothing: adding it anywhere to an array of keys, or giving it as the
  single key instead of no key, leaves the result of \<open>splitFields\<close> as it was.
\<close>

theorem splitFields_classification:
  "primaryKeys (schema\<lparr>primaryKey := None\<rparr>) = []
   \<and> primaryKeys (schema\<lparr>primaryKey := Some (PKString s)\<rparr>) = [s]
   \<and> primaryKeys (schema\<lparr>primaryKey := Some (PKArray ks)\<rparr>) = ks
   \<and> headerFields (splitFields schema)
       = filter (\<lambda>f. name f \<in> set (primaryKeys schema)) (schemaFields schema)
   \<and> bodyFields (splitFields schema)
       = filter (\<lambda>f. name f \<notin> set (primaryKeys schema)) (schemaFields schema)
   \<and> (k \<notin> name ` set (schemaFields schema) \<longrightarrow>
        splitFields (schema\<lparr>primaryKey := Some (PKArray (ks1 @ k # ks2))\<rparr>)
          = splitFields (schema\<lparr>primaryKey := Some (PKArray (ks1 @ ks2))\<rparr>)
        \<and> splitFields (schema\<lparr>primaryKey := Some (PKString k)\<rparr>)
          = splitFields (schema\<lparr>primaryKey := None\<rparr>))"
proof (intro conjI impI)
  show "primaryKeys (schema\<lparr>primaryKey := None\<rparr>) = []"
    and "primaryKeys (schema\<lparr>primaryKey := Some (PKString s)\<rparr>) = [s]"
    and "primaryKeys (schema\<lparr>primaryKey := Some (PKArray ks)\<rparr>) = ks"
    by (simp_all add: primaryKeys_def)
  show "headerFields (splitFields schema)
       = filter (\<lambda>f. name f \<in> set (primaryKeys schema)) (schemaFields schema)"
    and "bodyFields (splitFields schema)
       = filter (\<lambda>f. name f \<notin> set (primaryKeys schema)) (schemaFields schema)"
    by (simp_all add: splitFields_filter)
next
  assume "k \<notin> name ` set (schemaFields schema)"
  then show "splitFields (schema\<lparr>primaryKey := Some (PKArray (ks1 @ k # ks2))\<rparr>)
          = splitFields (schema\<lparr>primaryKey := Some (PKArray (ks1 @ ks2))\<rparr>)"
    and "splitFields (schema\<lparr>primaryKey := Some (PKString k)\<rparr>)
          = splitFields (schema\<lparr>primaryKey := None\<rparr>)"
    by (rule splitFields_drop_unmatched, rule splitFields_single_unmatched)
qed

theorem splitFields_classification_witness:
  "''zz'' \<notin> name ` set (schemaFields exampleSchema)
   \<and> splitFields (exampleSchema\<lparr>primaryKey := Some (PKArray ([''id''] @ ''zz'' # [''id'']))\<rparr>)
       = splitFields (exampleSchema\<lparr>primaryKey := Some (PKArray ([''id''] @ [''id'']))\<rparr>)
   \<and> splitFields (exampleSchema\<lparr>primaryKey := Some (PKString ''zz'')\<rparr>)
       = splitFields (exampleSchema\<lparr>primaryKey := None\<rparr>)
   \<and> headerFields (splitFields exampleSchema) = [\<lparr>name = ''id'', type = ''integer''\<rparr>]
   \<and> bodyFields (splitFields exampleSchema) = [\<lparr>name = ''x'', type = ''string''\<rparr>]"
proof -
  have h: "''zz'' \<notin> name ` set (schemaFields exampleSchema)"
    by (simp add: exampleSchema_def)
  have p: "primaryKeys exampleSchema = [''id'']"
    by (simp add: exampleSchema_def primaryKeys_def)
  have f: "filter (\<lambda>f. name f \<in> set [''id'']) (schemaFields exampleSchema)
        = [\<lparr>name = ''id'', type = ''integer''\<rparr>]"
    "filter (\<lambda>f. name f \<notin> set [''id'']) (schemaFields exampleSchema)
        = [\<lparr>name = ''x'', type = ''string''\<rparr>]"
    by (simp_all add: exampleSchema_def)
  note t = splitFields_classification
    [of exampleSchema "''id''" "[''id'']" "''zz''" "[''id'']" "[''id'']"]
  from t h have
    "splitFields (exampleSchema\<lparr>primaryKey := Some (PKArray ([''id''] @ ''zz'' # [''id'']))\<rparr>)
       = splitFields (exampleSchema\<lparr>primaryKey := Some (PKArray ([''id''] @ [''id'']))\<rparr>)"
    and "splitFields (exampleSchema\<lparr>primaryKey := Some (PKString ''zz'')\<rparr>)
       = splitFields (exampleSchema\<lparr>primaryKey := None\<rparr>)"
    by blast+
  moreover from t have
    "headerFields (splitFields exampleSchema) = [\<lparr>name = ''id'', type = ''integer''\<rparr>]"
    and "bodyFields (splitFields exampleSchema) = [\<lparr>name = ''x'', type = ''string''\<rparr>]"
    unfolding p f by blast+
  ultimately show ?thesis using h by blast
qed

section \<open>Properties of the view\<close>

text \<open>
  Claim C4. For every view, \<open>rowCount\<close> of the region \<open>body\<close> is the length of the data
  source (also for a view built by the constructor from any schema), and \<open>rowCount\<close> is
  \<open>1\<close> for \<open>column-header\<close> and for every region other than \<open>body\<close>, whatever the
  size of the data source.
\<close>

theorem rowCount_law:
  "rowCount v ''body'' = length (v_data v)
   \<and> rowCount (new_View \<lparr>opt_schema = schema, opt_data = ds\<rparr>) ''body'' = length ds
   \<and> rowCount v ''column-header'' = 1
   \<and> (region \<noteq> ''body'' \<longrightarrow> rowCount v region = 1)"
  by (simp add: rowCount_def new_View_def Let_def)

theorem rowCount_law_witness:
  "''row-header'' \<noteq> ''body'' \<and> rowCount exampleView ''row-header'' = 1
   \<and> rowCount exampleView ''body'' = 2"
  using rowCount_law [of exampleView exampleSchema exampleData "''row-header''"]
  by (simp add: exampleView_fields exampleData_def)

text \<open>
  Claim C5. For every view, \<open>columnCount\<close> of the region \<open>body\<close> is the number of body
  fields and \<open>columnCount\<close> of the region \<open>row-header\<close> is the number of header fields;
  for a constructed view these are the two sequences computed by \<open>splitFields\<close>.
\<close>

theorem columnCount_law:
  "columnCount v ''body'' = length (v_bodyFields v)
   \<and> columnCount v ''row-header'' = length (v_headerFields v)
   \<and> columnCount (new_View \<lparr>opt_schema = schema, opt_data = ds\<rparr>) ''body''
       = length (bodyFields (splitFields schema))
   \<and> columnCount (new_View \<lparr>opt_schema = schema, opt_data = ds\<rparr>) ''row-header''
       = length (headerFields (splitFields schema))"
  by (simp add: columnCount_def new_View_def Let_def)

lemma new_View_sel [simp]:
  "v_data (new_View options) = opt_data options"
  "v_bodyFields (new_View options) = bodyFields (splitFields (opt_schema options))"
  "v_headerFields (new_View options) = headerFields (splitFields (opt_schema options))"
  "v_missingValues (new_View options) = createMissingMap (opt_schema options)"
  by (simp_all add: new_View_def Let_def)

lemma elemAt_zero [simp]: "elemAt (x # xs) 0 = Some x"
  by (simp add: elemAt_def)

text \<open>
  Claim C9. The view built from the schema with the single field \<open>id\<close> of type
  \<open>integer\<close>, primary key \<open>id\<close>, the data source \<open>[{id: 1}]\<close> and no missing values
  has no body field and the \<open>id\<close> field as its only header field; its column count is
  \<open>0\<close> for \<open>body\<close> and \<open>1\<close> for \<open>row-header\<close>; \<open>data\<close> returns the number \<open>1\<close> at
  \<open>('row-header', 0, 0)\<close> and the string \<open>id\<close> at \<open>('corner-header', 0, 0)\<close>.
\<close>

theorem scenario_A:
  "v_bodyFields scenarioA = []
   \<and> v_headerFields scenarioA = [\<lparr>name = ''id'', type = ''integer''\<rparr>]
   \<and> columnCount scenarioA ''body'' = 0
   \<and> columnCount scenarioA ''row-header'' = 1
   \<and> data scenarioA ''row-header'' 0 0 = Inr (JNumber 1)
   \<and> data scenarioA ''corner-header'' 0 0 = Inr (JString ''id'')"
proof -
  have s: "splitFields \<lparr>schemaFields = [\<lparr>name = ''id'', type = ''integer''\<rparr>],
           missingValues = None, primaryKey = Some (PKString ''id'')\<rparr>
     = \<lparr>bodyFields = [], headerFields = [\<lparr>name = ''id'', type = ''integer''\<rparr>]\<rparr>"
    by (simp add: splitFields_def splitStep_def primaryKeys_def indexOf_def)
  have b: "v_bodyFields scenarioA = []"
    and h: "v_headerFields scenarioA = [\<lparr>name = ''id'', type = ''integer''\<rparr>]"
    and d: "v_data scenarioA = [[''id'' \<mapsto> JNumber 1]]"
    and m: "v_missingValues scenarioA = None"
    by (simp_all add: scenarioA_def s createMissingMap_def)
  have "columnCount scenarioA ''body'' = 0" and "columnCount scenarioA ''row-header'' = 1"
    by (simp_all add: columnCount_def b h)
  moreover have "data scenarioA ''row-header'' 0 0 = Inr (JNumber 1)"
    by (simp add: data_def lookupRegion_def cellValue_def isMissing_def h d m)
  moreover have "data scenarioA ''corner-header'' 0 0 = Inr (JString ''id'')"
    by (simp add: data_def lookupRegion_def labelValue_def isMissing_def h m)
  ultimately show ?thesis using b h by simp
qed

text \<open>
  Claim C6. A view constructed from a schema whose \<open>missingValues\<close> is the empty array
  is the same view as the one constructed from that schema with \<open>missingValues\<close> absent,
  so \<open>rowCount\<close>, \<open>columnCount\<close>, \<open>metadata\<close> and \<open>data\<close> agree on every argument; and
  in both views \<open>data\<close> returns the raw value found by the region lookup (or its
  failure) with no substitution.
\<close>

theorem missingValues_empty_equiv:
  "new_View \<lparr>opt_schema = schema\<lparr>missingValues := Some []\<rparr>, opt_data = ds\<rparr>
     = new_View \<lparr>opt_schema = schema\<lparr>missingValues := None\<rparr>, opt_data = ds\<rparr>
   \<and> rowCount (new_View \<lparr>opt_schema = schema\<lparr>missingValues := Some []\<rparr>, opt_data = ds\<rparr>) rregion
     = rowCount (new_View \<lparr>opt_schema = schema\<lparr>missingValues := None\<rparr>, opt_data = ds\<rparr>) rregion
   \<and> columnCount (new_View \<lparr>opt_schema = schema\<lparr>missingValues := Some []\<rparr>, opt_data = ds\<rparr>) cregion
     = columnCount (new_View \<lparr>opt_schema = schema\<lparr>missingValues := None\<rparr>, opt_data = ds\<rparr>) cregion
   \<and> metadata (new_View \<lparr>opt_schema = schema\<lparr>missingValues := Some []\<rparr>, opt_data = ds\<rparr>) region column
     = metadata (new_View \<lparr>opt_schema = schema\<lparr>missingValues := None\<rparr>, opt_data = ds\<rparr>) region column
   \<and> data (new_View \<lparr>opt_schema = schema\<lparr>missingValues := Some []\<rparr>, opt_data = ds\<rparr>) region row column
     = data (new_View \<lparr>opt_schema = schema\<lparr>missingValues := None\<rparr>, opt_data = ds\<rparr>) region row column
   \<and> data (new_View \<lparr>opt_schema = schema\<lparr>missingValues := Some []\<rparr>, opt_data = ds\<rparr>) region row column
     = map_sum id snd
         (lookupRegion (new_View \<lparr>opt_schema = schema\<lparr>missingValues := Some []\<rparr>, opt_data = ds\<rparr>)
            region row column)
   \<and> data (new_View \<lparr>opt_schema = schema\<lparr>missingValues := None\<rparr>, opt_data = ds\<rparr>) region row column
     = map_sum id snd
         (lookupRegion (new_View \<lparr>opt_schema = schema\<lparr>missingValues := None\<rparr>, opt_data = ds\<rparr>)
            region row column)"
proof -
  let ?e = "new_View \<lparr>opt_schema = schema\<lparr>missingValues := Some []\<rparr>, opt_data = ds\<rparr>"
  let ?a = "new_View \<lparr>opt_schema = schema\<lparr>missingValues := None\<rparr>, opt_data = ds\<rparr>"
  have sp: "splitFields (schema\<lparr>missingValues := Some []\<rparr>)
          = splitFields (schema\<lparr>missingValues := None\<rparr>)"
    by (simp add: splitFields_def primaryKeys_def)
  have mm: "createMissingMap (schema\<lparr>missingValues := Some []\<rparr>) = None"
    "createMissingMap (schema\<lparr>missingValues := None\<rparr>) = None"
    by (simp_all add: createMissingMap_def)
  have eq: "?e = ?a"
    by (simp add: new_View_def sp mm)
  have none: "v_missingValues ?a = None"
    by (simp add: mm)
  have raw: "data ?a region row column = map_sum id snd (lookupRegion ?a region row column)"
    by (cases "lookupRegion ?a region row column")
       (auto simp add: data_def isMissing_def none simp del: new_View_sel)
  show ?thesis
    unfolding eq using raw by simp
qed

text \<open>
  Claim C7. For every view and every column index within the body column count,
  \<open>metadata\<close> of \<open>body\<close> and of \<open>column-header\<close> are the same field, the body field at
  that index; for every column index within the row-header column count, \<open>metadata\<close> of
  \<open>row-header\<close> and of \<open>corner-header\<close> are the same field, the header field at that
  index.
\<close>

theorem metadata_label_consistency:
  "(0 \<le> c \<and> c < int (columnCount v ''body'') \<longrightarrow>
      metadata v ''body'' c = metadata v ''column-header'' c
      \<and> metadata v ''body'' c = Some (v_bodyFields v ! nat c))
   \<and> (0 \<le> c \<and> c < int (columnCount v ''row-header'') \<longrightarrow>
      metadata v ''row-header'' c = metadata v ''corner-header'' c
      \<and> metadata v ''row-header'' c = Some (v_headerFields v ! nat c))"
  by (simp add: metadata_def columnCount_def elemAt_def)

theorem metadata_label_consistency_witness:
  "0 \<le> (0::int) \<and> 0 < int (columnCount exampleView ''body'')
   \<and> 0 < int (columnCount exampleView ''row-header'')
   \<and> metadata exampleView ''body'' 0 = metadata exampleView ''column-header'' 0
   \<and> metadata exampleView ''body'' 0 = Some \<lparr>name = ''x'', type = ''string''\<rparr>
   \<and> metadata exampleView ''row-header'' 0 = metadata exampleView ''corner-header'' 0
   \<and> metadata exampleView ''row-header'' 0 = Some \<lparr>name = ''id'', type = ''integer''\<rparr>"
proof -
  have b: "0 \<le> (0::int) \<and> 0 < int (columnCount exampleView ''body'')"
    and h: "0 \<le> (0::int) \<and> 0 < int (columnCount exampleView ''row-header'')"
    by (simp_all add: columnCount_def exampleView_fields)
  have e: "v_bodyFields exampleView ! nat 0 = \<lparr>name = ''x'', type = ''string''\<rparr>"
    "v_headerFields exampleView ! nat 0 = \<lparr>name = ''id'', type = ''integer''\<rparr>"
    by (simp_all add: exampleView_fields)
  from metadata_label_consistency [of 0 exampleView] b h show ?thesis
    unfolding e by blast
qed

text \<open>
  Claim C8. For every view, row and column, \<open>data\<close> called with a region that is none of
  \<open>body\<close>, \<open>row-header\<close>, \<open>column-header\<close>, \<open>corner-header\<close> fails in the default
  branch of the switch (the source throws the string \<open>unreachable\<close>, which is the
  invalid-region failure), and for each of the four regions that failure never occurs.
\<close>

theorem data_invalid_region:
  "(region \<notin> {''body'', ''row-header'', ''column-header'', ''corner-header''} \<longrightarrow>
      data v region row column = Inl (Thrown ''unreachable''))
   \<and> (region \<in> {''body'', ''row-header'', ''column-header'', ''corner-header''} \<longrightarrow>
      data v region row column \<noteq> Inl (Thrown ''unreachable''))"
proof (intro conjI impI)
  assume "region \<notin> {''body'', ''row-header'', ''column-header'', ''corner-header''}"
  then show "data v region row column = Inl (Thrown ''unreachable'')"
    by (simp add: data_def lookupRegion_def)
next
  assume r: "region \<in> {''body'', ''row-header'', ''column-header'', ''corner-header''}"
  have c: "cellValue v row f \<noteq> Inl (Thrown ''unreachable'')" for f
    by (simp add: cellValue_def split: option.split)
  have l: "(labelValue f :: exn + IField \<times> 'a jsvalue) \<noteq> Inl (Thrown ''unreachable'')" for f
    by (simp add: labelValue_def split: option.split)
  from r c l have "lookupRegion v region row column \<noteq> Inl (Thrown ''unreachable'')"
    by (auto simp add: lookupRegion_def)
  then show "data v region row column \<noteq> Inl (Thrown ''unreachable'')"
    by (auto simp add: data_def split: sum.splits)
qed

theorem data_invalid_region_witness:
  "''footer'' \<notin> {''body'', ''row-header'', ''column-header'', ''corner-header''}
   \<and> data exampleView ''footer'' 0 0 = Inl (Thrown ''unreachable'')
   \<and> ''body'' \<in> {''body'', ''row-header'', ''column-header'', ''corner-header''}
   \<and> data exampleView ''body'' 0 0 \<noteq> Inl (Thrown ''unreachable'')
   \<and> data exampleView ''body'' 7 0 \<noteq> Inl (Thrown ''unreachable'')"
  using data_invalid_region [of "''footer''" exampleView 0 0]
    data_invalid_region [of "''body''" exampleView 0 0]
    data_invalid_region [of "''body''" exampleView 7 0]
  by simp

text \<open>
  Claim C10. For the regions \<open>column-header\<close> and \<open>corner-header\<close>, the result of
  \<open>data\<close> does not depend on the row: for every view, every valid column and any two row
  indices the results are equal, the raw value being the name of the field at that
  column.
\<close>

theorem header_data_row_independent:
  "(0 \<le> c \<and> c < int (columnCount v ''body'') \<longrightarrow>
      data v ''column-header'' r1 c = data v ''column-header'' r2 c
      \<and> lookupRegion v ''column-header'' r1 c
          = Inr (v_bodyFields v ! nat c, JString (name (v_bodyFields v ! nat c))))
   \<and> (0 \<le> c \<and> c < int (columnCount v ''row-header'') \<longrightarrow>
      data v ''corner-header'' r1 c = data v ''corner-header'' r2 c
      \<and> lookupRegion v ''corner-header'' r1 c
          = Inr (v_headerFields v ! nat c, JString (name (v_headerFields v ! nat c))))"
  by (simp add: data_def lookupRegion_def labelValue_def columnCount_def elemAt_def)

theorem header_data_row_independent_witness:
  "0 \<le> (0::int) \<and> 0 < int (columnCount exampleView ''body'')
   \<and> 0 < int (columnCount exampleView ''row-header'')
   \<and> data exampleView ''column-header'' 0 0 = data exampleView ''column-header'' 5 0
   \<and> data exampleView ''column-header'' 0 0 = Inr (JString ''x'')
   \<and> data exampleView ''corner-header'' 0 0 = data exampleView ''corner-header'' (- 3) 0
   \<and> data exampleView ''corner-header'' 0 0 = Inr (JString ''id'')"
proof -
  have "data exampleView ''column-header'' 0 0 = Inr (JString ''x'')"
    and "data exampleView ''corner-header'' 0 0 = Inr (JString ''id'')"
    by (simp_all add: data_def lookupRegion_def labelValue_def isMissing_def exampleView_fields)
  with header_data_row_independent [of 0 exampleView 0 5]
    header_data_row_independent [of 0 exampleView 0 "- 3"]
  show ?thesis
    by (simp add: columnCount_def exampleView_fields)
qed

lemma fold_missing_upd:
  "fold (\<lambda>value result. result(value \<mapsto> True)) vs m s
     = (if s \<in> set vs then Some True else m s)"
  by (induction vs arbitrary: m) auto

lemma isMissing_iff:
  "isMissing mv raw \<longleftrightarrow> (\<exists>s m. raw = JString s \<and> mv = Some m \<and> m s = Some True)"
  by (cases mv; cases raw) (simp_all add: isMissing_def)

lemma isMissing_createMissingMap:
  "isMissing (createMissingMap schema) raw \<longleftrightarrow>
     (\<exists>s. raw = JString s \<and> s \<in> set (case missingValues schema of None \<Rightarrow> [] | Some vs \<Rightarrow> vs))"
proof (cases "missingValues schema")
  case None
  then show ?thesis
    by (simp add: createMissingMap_def isMissing_def)
next
  case (Some vs)
  show ?thesis
  proof (cases "vs = []")
    case True
    with Some show ?thesis
      by (simp add: createMissingMap_def isMissing_def)
  next
    case False
    with Some show ?thesis
      by (cases raw) (simp_all add: createMissingMap_def isMissing_def fold_missing_upd)
  qed
qed

lemma lookupRegion_in_bounds:
  assumes "region \<in> {''body'', ''row-header'', ''column-header'', ''corner-header''}"
    and "0 \<le> column"
    and "column < int (columnCount v
            (if region = ''body'' \<or> region = ''column-header'' then ''body'' else ''row-header''))"
    and "region = ''body'' \<or> region = ''row-header'' \<longrightarrow>
           0 \<le> row \<and> row < int (rowCount v ''body'')"
  shows "\<exists>field raw. lookupRegion v region row column = Inr (field, raw)"
proof -
  from assms(1) consider "region = ''body''" | "region = ''row-header''"
    | "region = ''column-header''" | "region = ''corner-header''"
    by blast
  then show ?thesis
  proof cases
    case 1
    with assms(2-4) show ?thesis
      by (simp add: lookupRegion_def cellValue_def columnCount_def rowCount_def elemAt_def)
  next
    case 2
    with assms(2-4) show ?thesis
      by (simp add: lookupRegion_def cellValue_def columnCount_def rowCount_def elemAt_def)
  next
    case 3
    with assms(2-4) show ?thesis
      by (simp add: lookupRegion_def labelValue_def columnCount_def elemAt_def)
  next
    case 4
    with assms(2-4) show ?thesis
      by (simp add: lookupRegion_def labelValue_def columnCount_def elemAt_def)
  qed
qed

lemma data_of_lookup:
  assumes "lookupRegion v region row column = Inr (field, raw)"
  shows "data v region row column
           = Inr (if isMissing (v_missingValues v) raw then JNull else raw)"
  using assms by (simp add: data_def)

text \<open>
  Claim C2, as amended. For each of the four regions, a column within the column count of
  the region's field array and, for \<open>body\<close> and \<open>row-header\<close>, a row within the data
  source, the region lookup yields a field and a raw value, and \<open>data\<close> returns \<open>null\<close>
  if and only if the raw value is itself \<open>null\<close> or is a string that is a member of the
  missing-value index; whenever the raw value is not such a string, \<open>data\<close> returns it
  unchanged. Membership in the index means that the index is present and maps the string
  to \<open>true\<close>; for a constructed view that is membership in the schema's list of
  missing values (lemma \<open>isMissing_createMissingMap\<close>).
\<close>

theorem data_missing_value_law:
  assumes "region \<in> {''body'', ''row-header'', ''column-header'', ''corner-header''}"
    and "0 \<le> column"
    and "column < int (columnCount v
            (if region = ''body'' \<or> region = ''column-header'' then ''body'' else ''row-header''))"
    and "region = ''body'' \<or> region = ''row-header'' \<longrightarrow>
           0 \<le> row \<and> row < int (rowCount v ''body'')"
  shows "\<exists>field raw.
           lookupRegion v region row column = Inr (field, raw)
           \<and> (data v region row column = Inr JNull
                \<longleftrightarrow> raw = JNull \<or> isMissing (v_missingValues v) raw)
           \<and> (\<not> isMissing (v_missingValues v) raw \<longrightarrow> data v region row column = Inr raw)
           \<and> (isMissing (v_missingValues v) raw
                \<longleftrightarrow> (\<exists>s m. raw = JString s \<and> v_missingValues v = Some m \<and> m s = Some True))"
proof -
  from lookupRegion_in_bounds [OF assms] obtain field raw
    where l: "lookupRegion v region row column = Inr (field, raw)"
    by blast
  note d = data_of_lookup [OF l]
  have "data v region row column = Inr JNull
          \<longleftrightarrow> raw = JNull \<or> isMissing (v_missingValues v) raw"
    unfolding d by auto
  moreover have "\<not> isMissing (v_missingValues v) raw \<longrightarrow> data v region row column = Inr raw"
    unfolding d by simp
  ultimately show ?thesis
    using l isMissing_iff [of "v_missingValues v" raw] by blast
qed

theorem data_missing_value_law_witness:
  "''body'' \<in> {''body'', ''row-header'', ''column-header'', ''corner-header''}
   \<and> 0 \<le> (0::int)
   \<and> 0 < int (columnCount exampleView ''body'')
   \<and> 0 < int (rowCount exampleView ''body'')
   \<and> lookupRegion exampleView ''body'' 0 0
       = Inr (\<lparr>name = ''x'', type = ''string''\<rparr>, JString ''NA'')
   \<and> isMissing (v_missingValues exampleView) (JString ''NA'' :: int jsvalue)
   \<and> data exampleView ''body'' 0 0 = Inr JNull
   \<and> lookupRegion exampleView ''body'' 1 0
       = Inr (\<lparr>name = ''x'', type = ''string''\<rparr>, JString ''hello'')
   \<and> \<not> isMissing (v_missingValues exampleView) (JString ''hello'' :: int jsvalue)
   \<and> data exampleView ''body'' 1 0 = Inr (JString ''hello'')"
proof -
  have r: "''body'' \<in> {''body'', ''row-header'', ''column-header'', ''corner-header''}"
    by simp
  have c: "0 < int (columnCount exampleView
            (if ''body'' = ''body'' \<or> ''body'' = ''column-header'' then ''body'' else ''row-header''))"
    by (simp add: columnCount_def exampleView_fields)
  have c': "0 < int (columnCount exampleView ''body'')"
    by (simp add: columnCount_def exampleView_fields)
  have w0: "''body'' = ''body'' \<or> ''body'' = ''row-header'' \<longrightarrow>
      0 \<le> (0::int) \<and> 0 < int (rowCount exampleView ''body'')"
    and w1: "''body'' = ''body'' \<or> ''body'' = ''row-header'' \<longrightarrow>
      0 \<le> (1::int) \<and> 1 < int (rowCount exampleView ''body'')"
    by (simp_all add: rowCount_def exampleView_fields exampleData_def)
  have l0: "lookupRegion exampleView ''body'' 0 0
       = Inr (\<lparr>name = ''x'', type = ''string''\<rparr>, JString ''NA'')"
    and l1: "lookupRegion exampleView ''body'' 1 0
       = Inr (\<lparr>name = ''x'', type = ''string''\<rparr>, JString ''hello'')"
    by (simp_all add: lookupRegion_def cellValue_def elemAt_def exampleView_fields exampleData_def)
  have m0: "isMissing (v_missingValues exampleView) (JString ''NA'' :: int jsvalue)"
    and m1: "\<not> isMissing (v_missingValues exampleView) (JString ''hello'' :: int jsvalue)"
    by (simp_all add: isMissing_def exampleView_fields)
  have z: "0 \<le> (0::int)"
    by simp
  from data_missing_value_law [OF r z c w0] obtain f0 raw0
    where "lookupRegion exampleView ''body'' 0 0 = Inr (f0, raw0)"
      and "data exampleView ''body'' 0 0 = Inr JNull
             \<longleftrightarrow> raw0 = JNull \<or> isMissing (v_missingValues exampleView) raw0"
    by blast
  moreover from this l0 have "raw0 = JString ''NA''"
    by simp
  ultimately have d0: "data exampleView ''body'' 0 0 = Inr JNull"
    using m0 by blast
  from data_missing_value_law [OF r z c w1] obtain f1 raw1
    where "lookupRegion exampleView ''body'' 1 0 = Inr (f1, raw1)"
      and "\<not> isMissing (v_missingValues exampleView) raw1
             \<longrightarrow> data exampleView ''body'' 1 0 = Inr raw1"
    by blast
  moreover from this l1 have "raw1 = JString ''hello''"
    by simp
  ultimately have d1: "data exampleView ''body'' 1 0 = Inr (JString ''hello'')"
    using m1 by blast
  from w0 have w: "0 < int (rowCount exampleView ''body'')"
    by simp
  from r z c' w l0 m0 d0 l1 m1 d1 show ?thesis
    by blast
qed

text \<open>
  Claim C2, as stated, fails: a record may hold the JSON value \<open>null\<close>. At the in-bounds
  body cell \<open>(0, 0)\<close> of the view below the raw value is \<open>null\<close>, which is not a string
  of the missing-value index, and \<open>data\<close> returns \<open>null\<close>.
\<close>

theorem data_null_cell_counterexample:
  "''body'' \<in> {''body'', ''row-header'', ''column-header'', ''corner-header''}
   \<and> 0 < int (columnCount nullCellView ''body'')
   \<and> 0 < int (rowCount nullCellView ''body'')
   \<and> lookupRegion nullCellView ''body'' 0 0 = Inr (\<lparr>name = ''x'', type = ''string''\<rparr>, JNull)
   \<and> data nullCellView ''body'' 0 0 = Inr JNull
   \<and> \<not> isMissing (v_missingValues nullCellView) (JNull :: int jsvalue)
   \<and> \<not> (data nullCellView ''body'' 0 0 = Inr JNull
          \<longleftrightarrow> isMissing (v_missingValues nullCellView) (JNull :: int jsvalue))"
proof -
  have s: "splitFields \<lparr>schemaFields = [\<lparr>name = ''x'', type = ''string''\<rparr>],
           missingValues = Some [''NA''], primaryKey = None\<rparr>
     = \<lparr>bodyFields = [\<lparr>name = ''x'', type = ''string''\<rparr>], headerFields = []\<rparr>"
    by (simp add: splitFields_def splitStep_def primaryKeys_def indexOf_def)
  have b: "v_bodyFields nullCellView = [\<lparr>name = ''x'', type = ''string''\<rparr>]"
    and d: "v_data nullCellView = [[''x'' \<mapsto> JNull]]"
    by (simp_all add: nullCellView_def s)
  have l: "lookupRegion nullCellView ''body'' 0 0
      = Inr (\<lparr>name = ''x'', type = ''string''\<rparr>, JNull)"
    by (simp add: lookupRegion_def cellValue_def b d)
  have m: "\<not> isMissing (v_missingValues nullCellView) (JNull :: int jsvalue)"
    by (simp add: isMissing_def split: option.split)
  have r: "data nullCellView ''body'' 0 0 = Inr JNull"
    by (simp add: data_def l)
  show ?thesis
    using l m r by (simp add: columnCount_def rowCount_def b d)
qed

end
